theory Spec2Isabelle
  imports Complex_Main "HOL-Library.Char_ord" "HOL-Library.List_Lexorder"
begin

section \<open>BRVM portfolio manager: data model\<close>

text \<open>
  The embedding follows \<^verbatim>\<open>BRVMPortfolioManager\<close> of \<^verbatim>\<open>app.py\<close>. Python's numbers are
  modelled exactly: share quantities and volumes are integers, prices and amounts of
  money are rationals, so that \<^verbatim>\<open>0.075\<close>, \<^verbatim>\<open>0.006\<close> and \<^verbatim>\<open>0.1\<close> stand for the fractions
  they denote and \<^verbatim>\<open>/\<close> is exact division. The dictionaries of the source are records
  (fixed keys) and maps (keys that are symbols).
\<close>

record instrument =
  price :: rat
  change :: rat
  volume :: int
  sector :: string

record rules =
  trading_hours_open :: string
  trading_hours_close :: string
  settlement_days :: int
  min_lot_size :: int
  price_limits_static :: rat
  commission_rate :: rat
  min_commission :: rat
  trading_days :: "string list"

record manager =
  market_data :: "string \<rightharpoonup> instrument"
  brvm_rules :: rules

text \<open>
  A reading of \<^verbatim>\<open>datetime.now()\<close>: the proleptic Gregorian ordinal of the day
  (\<^verbatim>\<open>date.toordinal()\<close>, day 1 is a Monday) and the time of day. Adding
  \<^verbatim>\<open>timedelta(days=n)\<close> moves the ordinal; the bound of Python's calendar at year 9999
  is outside the model. \<^verbatim>\<open>isoformat()\<close> is injective, so a transaction keeps the
  reading itself.
\<close>

record datetime =
  ordinal :: int
  hour :: nat
  minute :: nat
  second :: nat
  microsecond :: nat

record position =
  quantity :: int
  avg_price :: rat
  pos_sector :: string

record transaction =
  tx_timestamp :: datetime
  tx_symbol :: string
  tx_type :: string
  tx_quantity :: int
  tx_price :: rat
  tx_commission :: rat
  tx_total :: rat
  tx_settlement_date :: datetime

record session_state =
  portfolio :: "string \<rightharpoonup> position"
  transactions :: "transaction list"
  cash_balance :: rat

text \<open>
  The second component of the pair \<^verbatim>\<open>execute_order\<close> returns is a message; its
  constructors carry the values the source formats into the text:
  \<^item> \<open>UnknownInstrument\<close>: "Symbole non trouve";
  \<^item> \<open>PriceOutOfBand lower upper\<close>: "Prix hors limites (lower - upper FCFA)";
  \<^item> \<open>InsufficientFunds\<close>: "Liquidites insuffisantes";
  \<^item> \<open>LiquidityExceeded\<close>: "Quantite trop importante par rapport a la liquidite";
  \<^item> \<open>InsufficientHoldings\<close>: "Actions insuffisantes en portefeuille";
  \<^item> \<open>BuyExecuted quantity symbol price commission\<close>: "Achat execute: ...";
  \<^item> \<open>SellExecuted quantity symbol price commission\<close>: "Vente executee: ...".
\<close>

datatype message =
    UnknownInstrument
  | PriceOutOfBand rat rat
  | InsufficientFunds
  | LiquidityExceeded
  | InsufficientHoldings
  | BuyExecuted int string rat rat
  | SellExecuted int string rat rat

datatype py_error = ZeroDivisionError

text \<open>
  What a call does: it returns a pair \<^verbatim>\<open>(success, message)\<close>, it falls off the end of
  the function (\<^verbatim>\<open>None\<close>, for an order type that is neither BUY nor SELL), or it raises.
\<close>

datatype outcome = Return bool message | ReturnNone | Raise py_error

datatype status_msg = ClosedWeekend | NotYetOpen string | ClosedForDay string | MarketOpen

section \<open>Initial state and reference data\<close>

definition initialize_session_state :: session_state where
  "initialize_session_state =
     \<lparr>portfolio = Map.empty, transactions = [], cash_balance = 1000000\<rparr>"

definition instr :: "rat \<Rightarrow> rat \<Rightarrow> int \<Rightarrow> string \<Rightarrow> instrument" where
  "instr p c v s = \<lparr>price = p, change = c, volume = v, sector = s\<rparr>"

definition market_table :: "(string \<times> instrument) list" where
  "market_table =
     [(''BICC'', instr 8500 (25/10) 15000 ''Construction''),
      (''BOAB'', instr 4200 (-12/10) 8500 ''Banque''),
      (''BOABF'', instr 4150 (8/10) 12000 ''Banque''),
      (''BOAC'', instr 3950 (15/10) 9500 ''Banque''),
      (''BOCIG'', instr 6200 (-5/10) 7200 ''Assurance''),
      (''CFAC'', instr 850 (32/10) 25000 ''Automobile''),
      (''CGBC'', instr 1250 (-21/10) 18000 ''Commerce''),
      (''EIBC'', instr 5800 (18/10) 11000 ''Industrie''),
      (''ETIT'', instr 18 (45/10) 45000 ''Telecom''),
      (''NEIC'', instr 4950 (-18/10) 6800 ''Assurance''),
      (''NTLC'', instr 950 (22/10) 32000 ''Textile''),
      (''ORAC'', instr 2800 (5/10) 14500 ''Mining''),
      (''PALC'', instr 2950 (-31/10) 8900 ''Agro''),
      (''PRSC'', instr 350 (19/10) 55000 ''Distribution''),
      (''SAFC'', instr 2450 (-8/10) 16700 ''Agro''),
      (''SGBC'', instr 11500 (28/10) 5400 ''Banque''),
      (''SHEC'', instr 2750 (11/10) 19800 ''Energie''),
      (''SIBC'', instr 4800 (-25/10) 7650 ''Banque''),
      (''SICC'', instr 1850 (9/10) 28500 ''Ciment''),
      (''SLBC'', instr 1950 (14/10) 13200 ''Banque''),
      (''SMBC'', instr 8200 (-16/10) 4200 ''Banque''),
      (''SNTS'', instr 4650 (21/10) 9800 ''Transport''),
      (''SOGC'', instr 4950 (7/10) 15600 ''Commerce''),
      (''STAC'', instr 650 (-19/10) 38000 ''Agro''),
      (''STBC'', instr 950 (35/10) 24500 ''Banque''),
      (''TTLC'', instr 350 (12/10) 65000 ''Textile''),
      (''UNLC'', instr 2850 (-3/10) 11900 ''Logistique'')]"

definition load_market_data :: manager where
  "load_market_data =
     \<lparr>market_data = map_of market_table,
      brvm_rules =
        \<lparr>trading_hours_open = ''08:00'', trading_hours_close = ''15:30'',
         settlement_days = 3, min_lot_size = 1, price_limits_static = 75/1000,
         commission_rate = 6/1000, min_commission = 5000,
         trading_days = [''Monday'', ''Tuesday'', ''Wednesday'', ''Thursday'', ''Friday'']\<rparr>\<rparr>"

section \<open>Pure rules\<close>

definition calculate_price_limits :: "manager \<Rightarrow> rat \<Rightarrow> rat \<times> rat" where
  "calculate_price_limits self reference_price =
     (let limit_pct = price_limits_static (brvm_rules self);
          upper_limit = reference_price * (1 + limit_pct);
          lower_limit = reference_price * (1 - limit_pct)
      in (lower_limit, upper_limit))"

definition calculate_commission :: "manager \<Rightarrow> rat \<Rightarrow> rat" where
  "calculate_commission self amount =
     max (amount * commission_rate (brvm_rules self)) (min_commission (brvm_rules self))"

text \<open>\<^verbatim>\<open>strftime('%A')\<close>: \<^verbatim>\<open>weekday()\<close> is \<^verbatim>\<open>(toordinal() + 6) % 7\<close>, Monday first.\<close>

definition day_names :: "string list" where
  "day_names =
     [''Monday'', ''Tuesday'', ''Wednesday'', ''Thursday'', ''Friday'', ''Saturday'', ''Sunday'']"

definition strftime_A :: "datetime \<Rightarrow> string" where
  "strftime_A now = day_names ! nat ((ordinal now + 6) mod 7)"

definition two_digits :: "nat \<Rightarrow> string" where
  "two_digits n = [''0123456789'' ! ((n div 10) mod 10), ''0123456789'' ! (n mod 10)]"

definition strftime_HM :: "datetime \<Rightarrow> string" where
  "strftime_HM now = two_digits (hour now) @ '':'' @ two_digits (minute now)"

text \<open>The time is compared as text, as the source does, in the order of strings.\<close>

definition is_trading_time :: "manager \<Rightarrow> datetime \<Rightarrow> bool \<times> status_msg" where
  "is_trading_time self now =
     (if strftime_A now \<notin> set (trading_days (brvm_rules self)) then (False, ClosedWeekend)
      else let current_time = strftime_HM now in
        if current_time < trading_hours_open (brvm_rules self)
          then (False, NotYetOpen (trading_hours_open (brvm_rules self)))
        else if current_time > trading_hours_close (brvm_rules self)
          then (False, ClosedForDay (trading_hours_close (brvm_rules self)))
        else (True, MarketOpen))"

section \<open>Order execution\<close>

text \<open>\<^verbatim>\<open>price if price else current_price\<close>: \<^verbatim>\<open>None\<close> and a zero price are both falsy.\<close>

definition order_price_of :: "rat option \<Rightarrow> rat \<Rightarrow> rat" where
  "order_price_of limit_price current_price =
     (case limit_price of
        None \<Rightarrow> current_price
      | Some p \<Rightarrow> if p = 0 then current_price else p)"

definition add_days :: "datetime \<Rightarrow> int \<Rightarrow> datetime" where
  "add_days now n = now\<lparr>ordinal := ordinal now + n\<rparr>"

definition make_transaction ::
  "manager \<Rightarrow> datetime \<Rightarrow> datetime \<Rightarrow> string \<Rightarrow> string \<Rightarrow> int \<Rightarrow> rat \<Rightarrow> rat \<Rightarrow> rat \<Rightarrow> transaction" where
  "make_transaction self now1 now2 symbol ty qty order_price commission amount =
     \<lparr>tx_timestamp = now1, tx_symbol = symbol, tx_type = ty, tx_quantity = qty,
      tx_price = order_price, tx_commission = commission, tx_total = amount,
      tx_settlement_date = add_days now2 (settlement_days (brvm_rules self))\<rparr>"

text \<open>
  The BUY branch (lines 128 to 165). The funds check comes first, then the liquidity
  check. The cash is debited before the position is touched; for a symbol already held
  the quantity is increased first and the average price is then recomputed from the
  increased quantity. The division raises when the increased quantity is zero, after
  the cash and the quantity have been written.
\<close>

definition execute_buy ::
  "manager \<Rightarrow> datetime \<Rightarrow> datetime \<Rightarrow> session_state \<Rightarrow> string \<Rightarrow> instrument \<Rightarrow> int \<Rightarrow> rat \<Rightarrow> rat \<Rightarrow> rat
     \<Rightarrow> outcome \<times> session_state" where
  "execute_buy self now1 now2 st symbol inst qty order_price total_amount commission =
     (let total_cost = total_amount + commission in
      if cash_balance st < total_cost then (Return False InsufficientFunds, st)
      else if of_int qty > of_int (volume inst) * (1/10 :: rat)
        then (Return False LiquidityExceeded, st)
      else
        let st1 = st\<lparr>cash_balance := cash_balance st - total_cost\<rparr>;
            tx = make_transaction self now1 now2 symbol ''BUY'' qty order_price commission total_cost;
            msg = BuyExecuted qty symbol order_price commission
        in case portfolio st1 symbol of
             Some pos \<Rightarrow>
               let pos1 = pos\<lparr>quantity := quantity pos + qty\<rparr>;
                   old_value = avg_price pos1 * of_int (quantity pos1) - of_int qty * order_price;
                   new_quantity = quantity pos1
               in if new_quantity = 0
                  then (Raise ZeroDivisionError,
                        st1\<lparr>portfolio := (portfolio st1)(symbol \<mapsto> pos1)\<rparr>)
                  else
                    let pos2 = pos1\<lparr>avg_price :=
                                 (old_value + of_int qty * order_price) / of_int new_quantity\<rparr>;
                        st2 = st1\<lparr>portfolio := (portfolio st1)(symbol \<mapsto> pos2)\<rparr>
                    in (Return True msg, st2\<lparr>transactions := transactions st2 @ [tx]\<rparr>)
           | None \<Rightarrow>
               let st2 = st1\<lparr>portfolio := (portfolio st1)(symbol \<mapsto>
                           \<lparr>quantity = qty, avg_price = order_price, pos_sector = sector inst\<rparr>)\<rparr>
               in (Return True msg, st2\<lparr>transactions := transactions st2 @ [tx]\<rparr>))"

text \<open>The SELL branch (lines 167 to 194).\<close>

definition execute_sell ::
  "manager \<Rightarrow> datetime \<Rightarrow> datetime \<Rightarrow> session_state \<Rightarrow> string \<Rightarrow> int \<Rightarrow> rat \<Rightarrow> rat \<Rightarrow> rat
     \<Rightarrow> outcome \<times> session_state" where
  "execute_sell self now1 now2 st symbol qty order_price total_amount commission =
     (case portfolio st symbol of
        None \<Rightarrow> (Return False InsufficientHoldings, st)
      | Some pos \<Rightarrow>
          if quantity pos < qty then (Return False InsufficientHoldings, st)
          else
            let total_received = total_amount - commission;
                st1 = st\<lparr>cash_balance := cash_balance st + total_received\<rparr>;
                pos1 = pos\<lparr>quantity := quantity pos - qty\<rparr>;
                st2 = st1\<lparr>portfolio :=
                        (if quantity pos1 = 0 then (portfolio st1)(symbol := None)
                         else (portfolio st1)(symbol \<mapsto> pos1))\<rparr>;
                tx = make_transaction self now1 now2 symbol ''SELL'' qty order_price commission
                       total_received
            in (Return True (SellExecuted qty symbol order_price commission),
                st2\<lparr>transactions := transactions st2 @ [tx]\<rparr>))"

text \<open>
  \<^verbatim>\<open>execute_order(self, symbol, order_type, quantity, price=None)\<close>. The session state is
  passed in and returned; \<open>now1\<close> and \<open>now2\<close> are the two readings of the clock the
  source takes for the time stamp and for the settlement date of the transaction.
\<close>

definition execute_order ::
  "manager \<Rightarrow> datetime \<Rightarrow> datetime \<Rightarrow> session_state \<Rightarrow> string \<Rightarrow> string \<Rightarrow> int \<Rightarrow> rat option
     \<Rightarrow> outcome \<times> session_state" where
  "execute_order self now1 now2 st symbol order_type qty limit_price =
     (case market_data self symbol of
        None \<Rightarrow> (Return False UnknownInstrument, st)
      | Some inst \<Rightarrow>
          let current_price = price inst;
              order_price = order_price_of limit_price current_price;
              lower_limit = fst (calculate_price_limits self current_price);
              upper_limit = snd (calculate_price_limits self current_price)
          in if order_price < lower_limit \<or> order_price > upper_limit
             then (Return False (PriceOutOfBand lower_limit upper_limit), st)
             else
               let total_amount = of_int qty * order_price;
                   commission = calculate_commission self total_amount
               in if order_type = ''BUY''
                    then execute_buy self now1 now2 st symbol inst qty order_price total_amount commission
                  else if order_type = ''SELL''
                    then execute_sell self now1 now2 st symbol qty order_price total_amount commission
                  else (ReturnNone, st))"

text \<open>A run of orders from a state, each with its clock reading; it stops at a raise.\<close>

type_synonym order = "datetime \<times> string \<times> string \<times> int \<times> rat option"

fun run_orders :: "manager \<Rightarrow> session_state \<Rightarrow> order list \<Rightarrow> outcome list \<times> session_state" where
  "run_orders self st [] = ([], st)"
| "run_orders self st ((now, symbol, order_type, qty, limit_price) # os) =
     (case execute_order self now now st symbol order_type qty limit_price of
        (Raise e, st') \<Rightarrow> ([Raise e], st')
      | (out, st') \<Rightarrow> (case run_orders self st' os of (outs, st'') \<Rightarrow> (out # outs, st'')))"

definition noon :: datetime where
  "noon = \<lparr>ordinal = 740000, hour = 12, minute = 0, second = 0, microsecond = 0\<rparr>"


section \<open>The branches of order execution\<close>

text \<open>
  One equation for each path through \<open>execute_order\<close>, \<open>execute_buy\<close> and
  \<open>execute_sell\<close>; the properties below are read off these.
\<close>

lemma execute_order_known:
  assumes "market_data self symbol = Some inst"
  shows "execute_order self now1 now2 st symbol order_type qty limit_price =
     (let p = order_price_of limit_price (price inst);
          c = calculate_commission self (of_int qty * p)
      in if p < fst (calculate_price_limits self (price inst)) \<or>
            snd (calculate_price_limits self (price inst)) < p
         then (Return False (PriceOutOfBand (fst (calculate_price_limits self (price inst)))
                 (snd (calculate_price_limits self (price inst)))), st)
         else if order_type = ''BUY''
           then execute_buy self now1 now2 st symbol inst qty p (of_int qty * p) c
         else if order_type = ''SELL''
           then execute_sell self now1 now2 st symbol qty p (of_int qty * p) c
         else (ReturnNone, st))"
  using assms by (simp add: execute_order_def Let_def)

lemma execute_order_unknown:
  "market_data self symbol = None \<Longrightarrow>
   execute_order self now1 now2 st symbol order_type qty limit_price
     = (Return False UnknownInstrument, st)"
  by (simp add: execute_order_def)

lemma execute_buy_reject:
  "fst (execute_buy self now1 now2 st symbol inst qty p a c) = Return False m
   \<Longrightarrow> snd (execute_buy self now1 now2 st symbol inst qty p a c) = st"
  by (auto simp: execute_buy_def Let_def split: if_splits option.splits)

lemma execute_sell_reject:
  "fst (execute_sell self now1 now2 st symbol qty p a c) = Return False m
   \<Longrightarrow> snd (execute_sell self now1 now2 st symbol qty p a c) = st"
  by (auto simp: execute_sell_def Let_def split: if_splits option.splits)

lemma reject_keeps_state:
  assumes "fst (execute_order self now1 now2 st symbol order_type qty limit_price) = Return False m"
  shows "snd (execute_order self now1 now2 st symbol order_type qty limit_price) = st"
proof (cases "market_data self symbol")
  case None
  then show ?thesis by (simp add: execute_order_unknown)
next
  case (Some inst)
  show ?thesis
    using assms
    by (auto simp: execute_order_known [OF Some] Let_def split: if_splits
             intro: execute_buy_reject execute_sell_reject)
qed


lemma execute_buy_funds:
  "cash_balance st < a + c \<Longrightarrow>
   execute_buy self now1 now2 st symbol inst qty p a c = (Return False InsufficientFunds, st)"
  by (simp add: execute_buy_def Let_def)

lemma execute_buy_liquidity:
  "\<not> cash_balance st < a + c \<Longrightarrow> of_int (volume inst) * (1/10 :: rat) < of_int qty \<Longrightarrow>
   execute_buy self now1 now2 st symbol inst qty p a c = (Return False LiquidityExceeded, st)"
  by (simp add: execute_buy_def Let_def)

lemma execute_buy_new:
  "\<not> cash_balance st < a + c \<Longrightarrow> \<not> of_int (volume inst) * (1/10 :: rat) < of_int qty \<Longrightarrow>
   portfolio st symbol = None \<Longrightarrow>
   execute_buy self now1 now2 st symbol inst qty p a c =
     (Return True (BuyExecuted qty symbol p c),
      st\<lparr>cash_balance := cash_balance st - (a + c),
         portfolio := (portfolio st)(symbol \<mapsto>
            \<lparr>quantity = qty, avg_price = p, pos_sector = sector inst\<rparr>),
         transactions := transactions st @
            [make_transaction self now1 now2 symbol ''BUY'' qty p c (a + c)]\<rparr>)"
  by (simp add: execute_buy_def Let_def)

lemma execute_buy_held_zero:
  "\<not> cash_balance st < a + c \<Longrightarrow> \<not> of_int (volume inst) * (1/10 :: rat) < of_int qty \<Longrightarrow>
   portfolio st symbol = Some pos \<Longrightarrow> quantity pos + qty = 0 \<Longrightarrow>
   execute_buy self now1 now2 st symbol inst qty p a c =
     (Raise ZeroDivisionError,
      st\<lparr>cash_balance := cash_balance st - (a + c),
         portfolio := (portfolio st)(symbol \<mapsto> pos\<lparr>quantity := quantity pos + qty\<rparr>)\<rparr>)"
  by (simp add: execute_buy_def Let_def)

lemma execute_buy_held:
  "\<not> cash_balance st < a + c \<Longrightarrow> \<not> of_int (volume inst) * (1/10 :: rat) < of_int qty \<Longrightarrow>
   portfolio st symbol = Some pos \<Longrightarrow> quantity pos + qty \<noteq> 0 \<Longrightarrow>
   execute_buy self now1 now2 st symbol inst qty p a c =
     (Return True (BuyExecuted qty symbol p c),
      st\<lparr>cash_balance := cash_balance st - (a + c),
         portfolio := (portfolio st)(symbol \<mapsto>
            pos\<lparr>quantity := quantity pos + qty,
                avg_price := (avg_price pos * of_int (quantity pos + qty) - of_int qty * p
                                + of_int qty * p) / of_int (quantity pos + qty)\<rparr>),
         transactions := transactions st @
            [make_transaction self now1 now2 symbol ''BUY'' qty p c (a + c)]\<rparr>)"
  by (simp add: execute_buy_def Let_def)

lemma execute_sell_absent:
  "portfolio st symbol = None \<Longrightarrow>
   execute_sell self now1 now2 st symbol qty p a c = (Return False InsufficientHoldings, st)"
  by (simp add: execute_sell_def)


lemma execute_sell_held:
  "portfolio st symbol = Some pos \<Longrightarrow> \<not> quantity pos < qty \<Longrightarrow>
   execute_sell self now1 now2 st symbol qty p a c =
     (Return True (SellExecuted qty symbol p c),
      st\<lparr>cash_balance := cash_balance st + (a - c),
         portfolio := (if quantity pos - qty = 0 then (portfolio st)(symbol := None)
                       else (portfolio st)(symbol \<mapsto> pos\<lparr>quantity := quantity pos - qty\<rparr>)),
         transactions := transactions st @
            [make_transaction self now1 now2 symbol ''SELL'' qty p c (a - c)]\<rparr>)"
  by (simp add: execute_sell_def Let_def)

lemma blend_cancels:
  "n \<noteq> 0 \<Longrightarrow> (x * of_int n - y + y) / of_int n = (x :: rat)"
  by simp

lemma execute_buy_accept:
  assumes ok: "execute_buy self now1 now2 st symbol inst qty p a c = (Return True m, st')"
  shows "\<not> cash_balance st < a + c \<and>
         \<not> of_int (volume inst) * (1/10 :: rat) < of_int qty \<and>
         m = BuyExecuted qty symbol p c \<and>
         cash_balance st' = cash_balance st - (a + c) \<and>
         transactions st' = transactions st @
           [make_transaction self now1 now2 symbol ''BUY'' qty p c (a + c)] \<and>
         portfolio st' = (portfolio st)(symbol \<mapsto>
           (case portfolio st symbol of
              None \<Rightarrow> \<lparr>quantity = qty, avg_price = p, pos_sector = sector inst\<rparr>
            | Some pos \<Rightarrow> pos\<lparr>quantity := quantity pos + qty\<rparr>))"
proof -
  have funds: "\<not> cash_balance st < a + c"
  proof
    assume "cash_balance st < a + c"
    from execute_buy_funds [OF this] ok show False by simp
  qed
  have liq: "\<not> of_int (volume inst) * (1/10 :: rat) < of_int qty"
  proof
    assume "of_int (volume inst) * (1/10 :: rat) < of_int qty"
    from execute_buy_liquidity [OF funds this] ok show False by simp
  qed
  show ?thesis
  proof (cases "portfolio st symbol")
    case None
    from execute_buy_new [OF funds liq None] ok funds liq None show ?thesis
      by auto
  next
    case (Some pos)
    have nz: "quantity pos + qty \<noteq> 0"
    proof
      assume "quantity pos + qty = 0"
      from execute_buy_held_zero [OF funds liq Some this] ok show False by simp
    qed
    from execute_buy_held [OF funds liq Some nz] ok funds liq Some blend_cancels [OF nz]
    show ?thesis by auto
  qed
qed


lemma accepted_buy:
  assumes known: "market_data self symbol = Some inst"
    and ok: "execute_order self now1 now2 st symbol ''BUY'' qty limit_price = (Return True m, st')"
  shows "execute_buy self now1 now2 st symbol inst qty (order_price_of limit_price (price inst))
           (of_int qty * order_price_of limit_price (price inst))
           (calculate_commission self (of_int qty * order_price_of limit_price (price inst)))
         = (Return True m, st')"
  using ok by (simp add: execute_order_known [OF known] Let_def split: if_splits)


section \<open>The loaded market data and rules\<close>

lemma market_BICC:
  "market_data load_market_data ''BICC'' =
     Some \<lparr>price = 8500, change = 25/10, volume = 15000, sector = ''Construction''\<rparr>"
  by (simp add: load_market_data_def market_table_def instr_def)

lemma market_ETIT:
  "market_data load_market_data ''ETIT'' =
     Some \<lparr>price = 18, change = 45/10, volume = 45000, sector = ''Telecom''\<rparr>"
  by (simp add: load_market_data_def market_table_def instr_def)

lemma rules_loaded:
  "price_limits_static (brvm_rules load_market_data) = 75/1000"
  "commission_rate (brvm_rules load_market_data) = 6/1000"
  "min_commission (brvm_rules load_market_data) = 5000"
  "settlement_days (brvm_rules load_market_data) = 3"
  by (simp_all add: load_market_data_def)

lemma limits_loaded:
  "calculate_price_limits load_market_data R = (R * (925/1000), R * (1075/1000))"
  by (simp add: calculate_price_limits_def rules_loaded Let_def algebra_simps)

lemma commission_loaded:
  "calculate_commission load_market_data a = max (a * (6/1000)) 5000"
  by (simp add: calculate_commission_def rules_loaded)

lemmas concrete = execute_order_known [OF market_BICC] execute_order_known [OF market_ETIT]
  limits_loaded commission_loaded order_price_of_def initialize_session_state_def Let_def

section \<open>The scenarios of the specification\<close>

text \<open>
  Scenario B: a SELL of a symbol that is not held. Scenario A: a BUY of 10 shares at the
  reference price 8500 with no limit. Scenario C: a limit of 9200 against the reference
  price 8500.
\<close>

lemma scenario_B:
  "execute_order load_market_data noon noon initialize_session_state ''BICC'' ''SELL'' 5 None
     = (Return False InsufficientHoldings, initialize_session_state)"
  by (simp add: concrete execute_sell_absent)


lemma scenario_C:
  "execute_order load_market_data noon noon initialize_session_state ''BICC'' ''BUY'' 10 (Some 9200)
     = (Return False (PriceOutOfBand (15725/2) (18275/2)), initialize_session_state)"
  by (simp add: concrete)

section \<open>Rejected orders\<close>

text \<open>
  Claim C4. Whenever an order is rejected, that is \<open>execute_order\<close> returns
  \<open>(False, message)\<close> for whichever reason (unknown symbol, price out of band,
  insufficient funds, liquidity exceeded, insufficient holdings), the session state it
  leaves is the state before the call: cash balance, portfolio and transaction log are
  unchanged.
\<close>

theorem rejected_order_changes_nothing:
  "fst (execute_order self now1 now2 st symbol order_type qty limit_price) = Return False m
   \<Longrightarrow> snd (execute_order self now1 now2 st symbol order_type qty limit_price) = st"
  by (rule reject_keeps_state)

text \<open>Scenario B is such a rejection, and the state after it is the initial state.\<close>

theorem rejected_order_changes_nothing_witness:
  "fst (execute_order load_market_data noon noon initialize_session_state ''BICC'' ''SELL'' 5 None)
     = Return False InsufficientHoldings \<and>
   snd (execute_order load_market_data noon noon initialize_session_state ''BICC'' ''SELL'' 5 None)
     = initialize_session_state"
proof -
  have rej: "fst (execute_order load_market_data noon noon initialize_session_state
                    ''BICC'' ''SELL'' 5 None) = Return False InsufficientHoldings"
    by (simp add: scenario_B)
  from rej rejected_order_changes_nothing [OF rej] show ?thesis by simp
qed

section \<open>Accepted BUY orders\<close>



section \<open>Accepted SELL orders\<close>




section \<open>The price band\<close>







section \<open>The order of the checks of a BUY\<close>




section \<open>The transaction log\<close>




section \<open>The trading window\<close>

lemma execute_buy_clock:
  "fst (execute_buy self now1 now2 st symbol inst qty p a c)
     = fst (execute_buy self now1' now2' st symbol inst qty p a c) \<and>
   cash_balance (snd (execute_buy self now1 now2 st symbol inst qty p a c))
     = cash_balance (snd (execute_buy self now1' now2' st symbol inst qty p a c)) \<and>
   portfolio (snd (execute_buy self now1 now2 st symbol inst qty p a c))
     = portfolio (snd (execute_buy self now1' now2' st symbol inst qty p a c))"
  by (simp add: execute_buy_def Let_def split: option.splits)

lemma execute_sell_clock:
  "fst (execute_sell self now1 now2 st symbol qty p a c)
     = fst (execute_sell self now1' now2' st symbol qty p a c) \<and>
   cash_balance (snd (execute_sell self now1 now2 st symbol qty p a c))
     = cash_balance (snd (execute_sell self now1' now2' st symbol qty p a c)) \<and>
   portfolio (snd (execute_sell self now1 now2 st symbol qty p a c))
     = portfolio (snd (execute_sell self now1' now2' st symbol qty p a c))"
  by (simp add: execute_sell_def Let_def split: option.splits)

lemma trading_window_open_and_closed:
  "is_trading_time load_market_data noon = (True, MarketOpen) \<and>
   is_trading_time load_market_data (noon\<lparr>ordinal := 740004\<rparr>) = (False, ClosedWeekend) \<and>
   is_trading_time load_market_data (noon\<lparr>hour := 7, minute := 59\<rparr>) = (False, NotYetOpen ''08:00'') \<and>
   is_trading_time load_market_data (noon\<lparr>hour := 15, minute := 31\<rparr>)
     = (False, ClosedForDay ''15:30'')"
  by (simp add: is_trading_time_def load_market_data_def noon_def strftime_A_def strftime_HM_def
        two_digits_def day_names_def)

text \<open>
  Claim C10. The trading window is advisory: \<open>execute_order\<close> never calls
  \<open>is_trading_time\<close>, and the clock only stamps the transaction. From the same account
  and market state, the same order gets the same decision (accepted, or rejected with
  the same reason), the same cash balance and the same portfolio at any two readings of
  the clock, whether inside or outside the trading hours and days.
\<close>

theorem decision_independent_of_clock:
  "fst (execute_order self now1 now2 st symbol order_type qty limit_price)
     = fst (execute_order self now1' now2' st symbol order_type qty limit_price) \<and>
   cash_balance (snd (execute_order self now1 now2 st symbol order_type qty limit_price))
     = cash_balance (snd (execute_order self now1' now2' st symbol order_type qty limit_price)) \<and>
   portfolio (snd (execute_order self now1 now2 st symbol order_type qty limit_price))
     = portfolio (snd (execute_order self now1' now2' st symbol order_type qty limit_price))"
proof (cases "market_data self symbol")
  case None
  then show ?thesis by (simp add: execute_order_unknown)
next
  case (Some inst)
  show ?thesis
    using execute_buy_clock [of self now1 now2 st symbol inst qty _ _ _ now1' now2']
      execute_sell_clock [of self now1 now2 st symbol qty _ _ _ now1' now2']
    by (simp add: execute_order_known [OF Some] Let_def)
qed

section \<open>The quantity of an order\<close>




section \<open>The average cost after a second BUY\<close>

lemma buy_held_keeps_avg_price:
  assumes "market_data self symbol = Some inst"
    and "portfolio st symbol = Some pos"
    and "execute_order self now1 now2 st symbol ''BUY'' qty limit_price = (Return True m, st')"
  shows "portfolio st' symbol = Some (pos\<lparr>quantity := quantity pos + qty\<rparr>)"
  using execute_buy_accept [OF accepted_buy [OF assms(1) assms(3)]] assms(2) by simp

text \<open>
  Claim C1 asks for the value-weighted blend of the old and the new lot as the average
  cost after a BUY on a symbol already held. The source increases the quantity first and
  then takes \<open>avg_price * quantity - qty * p\<close>, with the increased quantity, for the
  old value, so its result is the old average cost again. Scenario D: after BUY 10 at
  8500 and BUY 10 at 9000 the position has quantity 20 and average cost 8500, where the
  blend is 8750.
\<close>

theorem second_buy_average_cost:
  "run_orders load_market_data initialize_session_state
      [(noon, ''BICC'', ''BUY'', 10, Some 8500), (noon, ''BICC'', ''BUY'', 10, Some 9000)]
     = ([Return True (BuyExecuted 10 ''BICC'' 8500 5000),
         Return True (BuyExecuted 10 ''BICC'' 9000 5000)],
        \<lparr>portfolio = [''BICC'' \<mapsto> \<lparr>quantity = 20, avg_price = 8500, pos_sector = ''Construction''\<rparr>],
         transactions =
           [make_transaction load_market_data noon noon ''BICC'' ''BUY'' 10 8500 5000 90000,
            make_transaction load_market_data noon noon ''BICC'' ''BUY'' 10 9000 5000 95000],
         cash_balance = 815000\<rparr>) \<and>
   ((10 * 8500 + 10 * 9000) / (10 + 10) :: rat) = 8750"
  by (simp add: concrete execute_buy_new execute_buy_held)

section \<open>The cash balance\<close>

lemma accepted_buy_cash_nonneg:
  assumes "market_data self symbol = Some inst"
    and "execute_order self now1 now2 st symbol ''BUY'' qty limit_price = (Return True m, st')"
  shows "0 \<le> cash_balance st'"
  using execute_buy_accept [OF accepted_buy [OF assms]] by simp

text \<open>
  Claim C2 asks that the cash balance stays non-negative after every executed order. A
  BUY is guarded by the funds check; a SELL is not guarded, and its net proceeds are
  negative when the minimum commission exceeds the gross amount. From the initial
  state: BUY 1 ETIT at 18 (cash 994982), BUY 116 BICC at 8500 (cash 3066), SELL 1 ETIT at
  18, which nets 18 - 5000: all three orders are executed and the cash balance is -1916.
\<close>

theorem sell_makes_cash_negative:
  "run_orders load_market_data initialize_session_state
      [(noon, ''ETIT'', ''BUY'', 1, None), (noon, ''BICC'', ''BUY'', 116, None),
       (noon, ''ETIT'', ''SELL'', 1, None)]
     = ([Return True (BuyExecuted 1 ''ETIT'' 18 5000),
         Return True (BuyExecuted 116 ''BICC'' 8500 5916),
         Return True (SellExecuted 1 ''ETIT'' 18 5000)],
        \<lparr>portfolio = [''BICC'' \<mapsto> \<lparr>quantity = 116, avg_price = 8500, pos_sector = ''Construction''\<rparr>],
         transactions =
           [make_transaction load_market_data noon noon ''ETIT'' ''BUY'' 1 18 5000 5018,
            make_transaction load_market_data noon noon ''BICC'' ''BUY'' 116 8500 5916 991916,
            make_transaction load_market_data noon noon ''ETIT'' ''SELL'' 1 18 5000 (- 4982)],
         cash_balance = - 1916\<rparr>)"
  by (simp add: concrete execute_buy_new execute_sell_held fun_upd_twist)

end
